theory Spec2Isabelle
  imports Main
begin

section \<open>JavaScript values\<close>

text \<open>
  The components are JavaScript classes. The few values that the modelled getters
  handle are strings, the two absent values and booleans. \<open>truthy\<close> is JavaScript's
  ToBoolean on them, \<open>js_and\<close> is \<^verbatim>\<open>a && b\<close> and \<open>js_or\<close> is \<^verbatim>\<open>a || b\<close>: both return one
  of their operands, not a boolean.
\<close>

datatype jsval = Undefined | Null | Str string | Bool bool

fun truthy :: "jsval \<Rightarrow> bool" where
  "truthy Undefined = False"
| "truthy Null = False"
| "truthy (Str s) = (s \<noteq> [])"
| "truthy (Bool b) = b"

definition js_and :: "jsval \<Rightarrow> jsval \<Rightarrow> jsval" where
  "js_and a b = (if truthy a then b else a)"

definition js_or :: "jsval \<Rightarrow> jsval \<Rightarrow> jsval" where
  "js_or a b = (if truthy a then a else b)"

text \<open>
  \<^verbatim>\<open>Number(v)\<close> yields an IEEE double. The getters only compare two such numbers with
  \<^verbatim>\<open>>\<close>, so the conversion is a parameter \<open>N\<close> of the model: it maps a value to
  \<open>Some x\<close>, with \<open>x\<close> in a linear order, or to \<open>None\<close> for NaN. \<open>js_gt\<close> is \<^verbatim>\<open>>\<close>
  on two numbers; a comparison with NaN is false.
\<close>

fun js_gt :: "('n::linorder) option \<Rightarrow> 'n option \<Rightarrow> bool" where
  "js_gt (Some a) (Some b) = (b < a)"
| "js_gt _ _ = False"

text \<open>
  One instance of the conversion, for evaluating examples only; no general statement
  below depends on it. \<open>Number_nat\<close> agrees with \<^verbatim>\<open>Number\<close> on \<^verbatim>\<open>null\<close>, on \<^verbatim>\<open>undefined\<close>, on
  booleans and on strings of decimal digits that denote a number below \<open>2^53\<close> (the
  empty string is 0). It is not \<^verbatim>\<open>Number\<close> elsewhere: a string with a sign, a decimal
  point, an exponent or white space is mapped to NaN here, and a longer digit string is
  not rounded to a double.
\<close>

definition decimal_digits :: string where
  "decimal_digits = ''0123456789''"

definition digit_val :: "char \<Rightarrow> nat option" where
  "digit_val c =
     (let i = length (takeWhile (\<lambda>d. d \<noteq> c) decimal_digits)
      in if i < length decimal_digits then Some i else None)"

fun digits_val :: "nat \<Rightarrow> string \<Rightarrow> nat option" where
  "digits_val acc [] = Some acc"
| "digits_val acc (c # cs) =
     (case digit_val c of None \<Rightarrow> None | Some d \<Rightarrow> digits_val (10 * acc + d) cs)"

fun Number_nat :: "jsval \<Rightarrow> nat option" where
  "Number_nat Undefined = None"
| "Number_nat Null = Some 0"
| "Number_nat (Bool b) = Some (if b then 1 else 0)"
| "Number_nat (Str s) = digits_val 0 s"

datatype exception = TypeError

section \<open>The data of the components\<close>

subsection \<open>The product card (SearchCard)\<close>

text \<open>
  The card's \<^verbatim>\<open>displayData\<close> is a product: \<^verbatim>\<open>{id, name, image, fields, prices}\<close>.
  An optional member that is missing (\<^verbatim>\<open>undefined\<close>) is \<open>None\<close>. The members of
  the records carry the name of their object as a prefix: \<open>product_prices\<close> is
  \<^verbatim>\<open>displayData.prices\<close>, \<open>prices_listingPrice\<close> is \<^verbatim>\<open>prices.listingPrice\<close>, \<open>nv_name\<close>
  and \<open>nv_value\<close> are the \<^verbatim>\<open>name\<close> and \<^verbatim>\<open>value\<close> of one entry of \<^verbatim>\<open>fields\<close>.
\<close>

record image_rec =
  image_url :: jsval
  image_title :: jsval
  image_alternativeText :: jsval

record prices_rec =
  prices_listingPrice :: jsval
  prices_negotiatedPrice :: jsval
  prices_currencyIsoCode :: jsval

record name_value =
  nv_name :: string
  nv_value :: string

record product =
  product_id :: string
  product_name :: string
  product_image :: "image_rec option"
  product_fields :: "name_value list option"
  product_prices :: "prices_rec option"

text \<open>One entry of the list that the \<^verbatim>\<open>fields\<close> getter builds:
  \<^verbatim>\<open>{id, tabIndex, class, value}\<close>.\<close>

record card_field =
  field_id :: nat
  field_tabIndex :: int
  field_class :: string
  field_value :: string

subsection \<open>The search results component (SearchResults)\<close>

text \<open>
  The argument of \<^verbatim>\<open>JSON.stringify\<close> in \<^verbatim>\<open>triggerProductSearch\<close>. A refinement is opaque to
  the component and is kept as a string. \<open>page\<close> is the 0-based page sent to the
  search service.
\<close>

record query =
  searchTerm :: "string option"
  categoryId :: "string option"
  refinements :: "string list"
  page :: int
  includePrices :: bool
  includeQuantityRule :: bool

text \<open>
  One call of \<^verbatim>\<open>productSearch\<close>. Its \<^verbatim>\<open>communityId\<close> argument is an imported constant,
  the same in every call, and is left out.
\<close>

record request =
  searchQuery :: query
  effectiveAccountId :: "string option"

text \<open>
  What \<^verbatim>\<open>transformData\<close> returns and \<^verbatim>\<open>_displayData\<close> holds. The component reads
  \<^verbatim>\<open>total\<close> and \<^verbatim>\<open>pageSize\<close> of it; the products go to the cards.
\<close>

record displayPage =
  total :: int
  pageSize :: int
  cards :: "product list"

text \<open>
  The component's state. A leading underscore of the source is written \<open>u_\<close>:
  \<open>u_pageNumber\<close> is \<^verbatim>\<open>this._pageNumber\<close>. A member that is \<^verbatim>\<open>undefined\<close> is \<open>None\<close>.
  The last three members are not fields of the class: they are the promises of the
  component's calls. \<open>issued\<close> lists every \<^verbatim>\<open>productSearch\<close> call in the order of the
  calls, so that a call is known by its position in the list; \<open>settled\<close> holds the
  positions of the calls whose promise has been resolved or rejected;
  \<open>cleanCache_pending\<close> counts the \<^verbatim>\<open>cleanCache\<close> calls that have not settled.
  Calls of \<^verbatim>\<open>console.log\<close> and of \<^verbatim>\<open>evt.stopPropagation\<close> are left out, and so are the
  members that no property below reads: the cart summary and the add-to-cart handler,
  the navigation to a product, \<^verbatim>\<open>handleClearAll\<close> (it calls into a child component) and
  the opening of the comparison modal.
\<close>

record coordinator =
  u_displayData :: "displayPage option"
  u_isLoading :: bool
  u_pageNumber :: int
  u_refinements :: "string list"
  u_term :: "string option"
  u_recordId :: "string option"
  u_landingRecordId :: "string option"
  u_cardContentMapping :: "string option"
  u_effectiveAccountId :: "string option"
  error :: "string option"
  idsToCompare :: "string option"
  isComparingModalOpen :: bool
  issued :: "request list"
  settled :: "nat list"
  cleanCache_pending :: nat

section \<open>The getters of the product card\<close>

text \<open>\<^verbatim>\<open>get image() { return this.displayData.image || {}; }\<close>\<close>

definition empty_object :: image_rec where
  "empty_object =
     \<lparr>image_url = Undefined, image_title = Undefined, image_alternativeText = Undefined\<rparr>"

definition image :: "product \<Rightarrow> image_rec" where
  "image displayData =
     (case product_image displayData of None \<Rightarrow> empty_object | Some i \<Rightarrow> i)"

text \<open>
  \<^verbatim>\<open>(this.displayData.fields || []).map(({ name, value }, id) => ({...}))\<close>: the callback
  of \<^verbatim>\<open>map\<close> gets the entry and its index, counted from 0.
\<close>

definition format_field :: "nat \<times> name_value \<Rightarrow> card_field" where
  "format_field p =
     (case p of (i, f) \<Rightarrow>
       \<lparr>field_id = i + 1,
        field_tabIndex = (if i = 0 then 0 else - 1),
        field_class =
          (if i \<noteq> 0 then ''slds-truncate slds-text-heading_small''
           else ''slds-truncate slds-text-heading_medium''),
        field_value =
          (if nv_name f = ''Name'' \<or> nv_name f = ''Description'' then nv_value f
           else nv_name f @ '': '' @ nv_value f)\<rparr>)"

definition fields :: "product \<Rightarrow> card_field list" where
  "fields displayData =
     map format_field
       (enumerate 0 (case product_fields displayData of None \<Rightarrow> [] | Some fs \<Rightarrow> fs))"

text \<open>
  The price getters read a member of \<^verbatim>\<open>this.displayData.prices\<close> with no default: on a
  product without \<^verbatim>\<open>prices\<close> the member access throws a TypeError.
\<close>

definition price :: "product \<Rightarrow> exception + jsval" where
  "price displayData =
     (case product_prices displayData of
        None \<Rightarrow> Inl TypeError
      | Some prices \<Rightarrow> Inr (js_or (prices_negotiatedPrice prices) (prices_listingPrice prices)))"

definition hasPrice :: "product \<Rightarrow> exception + bool" where
  "hasPrice displayData =
     (case price displayData of Inl e \<Rightarrow> Inl e | Inr p \<Rightarrow> Inr (truthy p))"

definition listingPrice :: "product \<Rightarrow> exception + jsval" where
  "listingPrice displayData =
     (case product_prices displayData of
        None \<Rightarrow> Inl TypeError
      | Some prices \<Rightarrow> Inr (prices_listingPrice prices))"

definition canShowListingPrice :: "(jsval \<Rightarrow> ('n::linorder) option) \<Rightarrow> product \<Rightarrow> exception + jsval" where
  "canShowListingPrice N displayData =
     (case product_prices displayData of
        None \<Rightarrow> Inl TypeError
      | Some prices \<Rightarrow>
          Inr (js_and (js_and (prices_negotiatedPrice prices) (prices_listingPrice prices))
                 (Bool (js_gt (N (prices_listingPrice prices))
                              (N (prices_negotiatedPrice prices))))))"

definition currency :: "product \<Rightarrow> exception + jsval" where
  "currency displayData =
     (case product_prices displayData of
        None \<Rightarrow> Inl TypeError
      | Some prices \<Rightarrow> Inr (prices_currencyIsoCode prices))"

text \<open>What the claims call a present price: a string that is not empty.\<close>

fun present :: "jsval \<Rightarrow> bool" where
  "present (Str s) = (s \<noteq> [])"
| "present _ = False"

text \<open>The documented type of a price member (\<^verbatim>\<open>@property {string}\<close>): a string, or
  absent.\<close>

fun string_or_absent :: "jsval \<Rightarrow> bool" where
  "string_or_absent (Bool b) = False"
| "string_or_absent _ = True"

section \<open>The search results component\<close>

text \<open>The field initialisers of the class.\<close>

definition initial :: coordinator where
  "initial =
     \<lparr>u_displayData = None, u_isLoading = False, u_pageNumber = 1, u_refinements = [],
      u_term = None, u_recordId = None, u_landingRecordId = None,
      u_cardContentMapping = None, u_effectiveAccountId = None, error = None, idsToCompare = None,
      isComparingModalOpen = False, issued = [], settled = [], cleanCache_pending = 0\<rparr>"

definition opt_val :: "string option \<Rightarrow> jsval" where
  "opt_val v = (case v of None \<Rightarrow> Undefined | Some s \<Rightarrow> Str s)"

text \<open>
  \<^verbatim>\<open>const effectiveAcocuntId = this.effectiveAccountId || '';\<close> then the test on its
  length and on the placeholder id; \<open>None\<close> is the \<^verbatim>\<open>null\<close> that the getter returns.
\<close>

definition resolvedEffectiveAccountId :: "coordinator \<Rightarrow> string option" where
  "resolvedEffectiveAccountId s =
     (let effectiveAcocuntId = (case u_effectiveAccountId s of None \<Rightarrow> [] | Some a \<Rightarrow> a)
      in if length effectiveAcocuntId > 0 \<and> effectiveAcocuntId \<noteq> ''000000000000000''
         then Some effectiveAcocuntId else None)"

text \<open>The call of the search service: the promise it returns is in flight.\<close>

definition productSearch :: "request \<Rightarrow> coordinator \<Rightarrow> coordinator" where
  "productSearch req s = s\<lparr>issued := issued s @ [req]\<rparr>"

definition triggerProductSearch :: "coordinator \<Rightarrow> coordinator" where
  "triggerProductSearch s =
     (let q = \<lparr>searchTerm = u_term s, categoryId = u_recordId s,
               refinements = u_refinements s, page = u_pageNumber s - 1,
               includePrices = True, includeQuantityRule = True\<rparr>;
          s1 = s\<lparr>u_isLoading := True\<rparr>
      in productSearch \<lparr>searchQuery = q, effectiveAccountId = resolvedEffectiveAccountId s1\<rparr> s1)"

text \<open>
  The two callbacks of the promise. \<^verbatim>\<open>this.displayData = result\<close> runs the setter,
  which stores \<^verbatim>\<open>transformData(result, this._cardContentMapping)\<close>; the normalizer is not
  among the sources and is the parameter \<open>transformData\<close>, a function of the result and
  of the mapping that yields a page.
\<close>

type_synonym 'raw normalizer = "'raw \<Rightarrow> string option \<Rightarrow> displayPage"

definition searchResolved :: "'raw normalizer \<Rightarrow> 'raw \<Rightarrow> coordinator \<Rightarrow> coordinator" where
  "searchResolved transformData result s =
     (s\<lparr>u_displayData := Some (transformData result (u_cardContentMapping s))\<rparr>)
       \<lparr>u_isLoading := False\<rparr>"

definition searchRejected :: "string \<Rightarrow> coordinator \<Rightarrow> coordinator" where
  "searchRejected err s = (s\<lparr>error := Some err\<rparr>)\<lparr>u_isLoading := False\<rparr>"

text \<open>The setters of the public properties and the event handlers.\<close>

definition set_recordId :: "string option \<Rightarrow> coordinator \<Rightarrow> coordinator" where
  "set_recordId v s = triggerProductSearch (s\<lparr>u_recordId := v, u_landingRecordId := v\<rparr>)"

definition set_cardContentMapping :: "string option \<Rightarrow> coordinator \<Rightarrow> coordinator" where
  "set_cardContentMapping v s = s\<lparr>u_cardContentMapping := v\<rparr>"

definition set_term :: "string option \<Rightarrow> coordinator \<Rightarrow> coordinator" where
  "set_term v s =
     (let s1 = s\<lparr>u_term := v\<rparr>
      in if truthy (opt_val v) then triggerProductSearch s1 else s1)"

definition handlePreviousPage :: "coordinator \<Rightarrow> coordinator" where
  "handlePreviousPage s = triggerProductSearch (s\<lparr>u_pageNumber := u_pageNumber s - 1\<rparr>)"

definition handleNextPage :: "coordinator \<Rightarrow> coordinator" where
  "handleNextPage s = triggerProductSearch (s\<lparr>u_pageNumber := u_pageNumber s + 1\<rparr>)"

definition handleFacetValueUpdate :: "string list \<Rightarrow> coordinator \<Rightarrow> coordinator" where
  "handleFacetValueUpdate rs s =
     triggerProductSearch (s\<lparr>u_refinements := rs, u_pageNumber := 1\<rparr>)"

definition handleCategoryUpdate :: "string option \<Rightarrow> coordinator \<Rightarrow> coordinator" where
  "handleCategoryUpdate c s =
     triggerProductSearch (s\<lparr>u_recordId := c, u_pageNumber := 1\<rparr>)"

text \<open>
  \<^verbatim>\<open>closeComparingModal\<close> calls \<^verbatim>\<open>cleanCache()\<close>, attaches a \<^verbatim>\<open>catch\<close> that only logs, and
  then, in the same turn, clears \<^verbatim>\<open>idsToCompare\<close> and the flag. \<open>cleanCacheSettled\<close> is
  the later settling of that call: fulfilled (\<open>None\<close>), or rejected with a reason that
  the \<^verbatim>\<open>catch\<close> callback logs. Its result is \<open>None\<close> when no such call is pending.
\<close>

definition closeComparingModal :: "coordinator \<Rightarrow> coordinator" where
  "closeComparingModal s =
     (s\<lparr>cleanCache_pending := cleanCache_pending s + 1\<rparr>)
       \<lparr>idsToCompare := Some [], isComparingModalOpen := False\<rparr>"

definition cleanCacheSettled :: "string option \<Rightarrow> coordinator \<Rightarrow> coordinator option" where
  "cleanCacheSettled failure s =
     (if cleanCache_pending s > 0
      then Some (s\<lparr>cleanCache_pending := cleanCache_pending s - 1\<rparr>)
      else None)"

text \<open>
  Everything that can happen to the component: a setter or handler runs, or one of the
  promises in flight settles. A search call may settle once, at any later time and in
  any order with respect to the other calls.
\<close>

datatype 'raw event =
    SetRecordId "string option"
  | SetTerm "string option"
  | SetCardContentMapping "string option"
  | PreviousPage
  | NextPage
  | FacetValueUpdate "string list"
  | CategoryUpdate "string option"
  | SearchResolved nat 'raw
  | SearchRejected nat string
  | CloseComparingModal
  | CleanCacheSettled "string option"

definition in_flight :: "coordinator \<Rightarrow> nat \<Rightarrow> bool" where
  "in_flight s n = (n < length (issued s) \<and> n \<notin> set (settled s))"

fun step :: "'raw normalizer \<Rightarrow> coordinator \<Rightarrow> 'raw event \<Rightarrow> coordinator option" where
  "step td s (SetRecordId v) = Some (set_recordId v s)"
| "step td s (SetTerm v) = Some (set_term v s)"
| "step td s (SetCardContentMapping v) = Some (set_cardContentMapping v s)"
| "step td s PreviousPage = Some (handlePreviousPage s)"
| "step td s NextPage = Some (handleNextPage s)"
| "step td s (FacetValueUpdate rs) = Some (handleFacetValueUpdate rs s)"
| "step td s (CategoryUpdate c) = Some (handleCategoryUpdate c s)"
| "step td s (SearchResolved n r) =
     (if in_flight s n then Some (searchResolved td r (s\<lparr>settled := n # settled s\<rparr>)) else None)"
| "step td s (SearchRejected n e) =
     (if in_flight s n then Some (searchRejected e (s\<lparr>settled := n # settled s\<rparr>)) else None)"
| "step td s CloseComparingModal = Some (closeComparingModal s)"
| "step td s (CleanCacheSettled failure) = cleanCacheSettled failure s"

fun run :: "'raw normalizer \<Rightarrow> coordinator \<Rightarrow> 'raw event list \<Rightarrow> coordinator option" where
  "run td s [] = Some s"
| "run td s (e # es) = (case step td s e of None \<Rightarrow> None | Some s' \<Rightarrow> run td s' es)"

text \<open>
  The result carried by the last \<open>SearchResolved\<close> of a list of events, if any, with
  the card content mapping in force at that event; \<open>m\<close> is the mapping in force before
  the events.
\<close>

fun mapping_after :: "string option \<Rightarrow> 'raw event \<Rightarrow> string option" where
  "mapping_after m (SetCardContentMapping v) = v"
| "mapping_after m _ = m"

fun last_resolved :: "string option \<Rightarrow> 'raw event list \<Rightarrow> ('raw \<times> string option) option" where
  "last_resolved m [] = None"
| "last_resolved m (e # es) =
     (case last_resolved (mapping_after m e) es of
        Some p \<Rightarrow> Some p
      | None \<Rightarrow> (case e of SearchResolved n r \<Rightarrow> Some (r, m) | _ \<Rightarrow> None))"

text \<open>The position in \<open>issued\<close> of the most recent search call.\<close>

definition latest :: "coordinator \<Rightarrow> nat" where
  "latest s = length (issued s) - 1"

subsection \<open>The header text\<close>

text \<open>
  A template literal writes an integer in decimal, with a minus sign when it is
  negative. The numbers of the component are integers and are modelled as \<open>int\<close>,
  which is exact for JavaScript's numbers below \<open>2^53\<close> in absolute value.
\<close>

definition digit_char :: "nat \<Rightarrow> char" where
  "digit_char d = decimal_digits ! d"

fun show_nat :: "nat \<Rightarrow> string" where
  "show_nat n =
     (if n < 10 then [digit_char n] else show_nat (n div 10) @ [digit_char (n mod 10)])"

definition show_int :: "int \<Rightarrow> string" where
  "show_int i = (if 0 \<le> i then show_nat (nat i) else CHR ''-'' # show_nat (nat (- i)))"

text \<open>
  \<^verbatim>\<open>get displayData() { return this._displayData || {}; }\<close>: before the first result the
  members \<^verbatim>\<open>total\<close> and \<^verbatim>\<open>pageSize\<close> are \<^verbatim>\<open>undefined\<close>, and both comparisons of
  \<^verbatim>\<open>headerText\<close> with \<^verbatim>\<open>undefined\<close> are false.
\<close>

definition headerText :: "coordinator \<Rightarrow> string" where
  "headerText s =
     (case u_displayData s of
        None \<Rightarrow> []
      | Some d \<Rightarrow>
          (let totalItemCount = total d; pageSize = pageSize d
           in if totalItemCount > 1 then
                (let startIndex = (u_pageNumber s - 1) * pageSize + 1;
                     endIndex = min (startIndex + pageSize - 1) totalItemCount
                 in show_int startIndex @ '' - '' @ show_int endIndex @ '' of ''
                    @ show_int totalItemCount @ '' Items'')
              else if totalItemCount = 1 then ''1 Result''
              else []))"

definition hasMorePages :: "coordinator \<Rightarrow> bool" where
  "hasMorePages s =
     (case u_displayData s of None \<Rightarrow> False | Some d \<Rightarrow> total d > pageSize d)"

text \<open>
  The format as the specification words it, \<^verbatim>\<open>"{start}-{end} of {total} Items"\<close>, for
  comparison with \<open>headerText\<close>.
\<close>

definition headerText_spec :: "int \<Rightarrow> int \<Rightarrow> int \<Rightarrow> string" where
  "headerText_spec totalCount perPage pageNumber =
     (if totalCount > 1 then
        (let startIndex = (pageNumber - 1) * perPage + 1;
             endIndex = min (startIndex + perPage - 1) totalCount
         in show_int startIndex @ ''-'' @ show_int endIndex @ '' of ''
            @ show_int totalCount @ '' Items'')
      else if totalCount = 1 then ''1 Result''
      else [])"

text \<open>The property that the most recent search call has not settled yet.\<close>

definition latest_in_flight :: "coordinator \<Rightarrow> bool" where
  "latest_in_flight s = in_flight s (latest s)"

subsection \<open>Example inputs\<close>

text \<open>
  A normalizer for the examples: the result of the search service is the total number
  of items, so that two results are told apart by it.
\<close>

definition example_transform :: "int normalizer" where
  "example_transform r m = \<lparr>total = r, pageSize = 25, cards = []\<rparr>"

definition example_product :: product where
  "example_product =
     \<lparr>product_id = ''01t000000000002'', product_name = ''Widget'', product_image = None,
      product_fields = Some [\<lparr>nv_name = ''Name'', nv_value = ''Widget''\<rparr>,
                             \<lparr>nv_name = ''Family'', nv_value = ''Tools''\<rparr>],
      product_prices = Some \<lparr>prices_listingPrice = Str ''120'',
                              prices_negotiatedPrice = Str ''95'',
                              prices_currencyIsoCode = Str ''USD''\<rparr>\<rparr>"

text \<open>A product as a guest user receives it: no \<^verbatim>\<open>prices\<close> member.\<close>

definition product_without_prices :: product where
  "product_without_prices =
     \<lparr>product_id = ''01t000000000001'', product_name = ''Widget'', product_image = None,
      product_fields = Some [\<lparr>nv_name = ''Name'', nv_value = ''Widget''\<rparr>],
      product_prices = None\<rparr>"


definition page_two_of_45 :: coordinator where
  "page_two_of_45 =
     initial\<lparr>u_displayData := Some \<lparr>total = 45, pageSize = 25, cards = []\<rparr>,
             u_pageNumber := 2\<rparr>"

section \<open>Properties of the product card\<close>

subsection \<open>Truthiness and presence\<close>

lemma js_and_truthy: "truthy (js_and a b) \<longleftrightarrow> truthy a \<and> truthy b"
  by (simp add: js_and_def)

lemma js_or_truthy: "truthy (js_or a b) \<longleftrightarrow> truthy a \<or> truthy b"
  by (simp add: js_or_def)

lemma present_truthy: "string_or_absent v \<Longrightarrow> present v = truthy v"
  by (cases v) simp_all

lemma js_gt_irrefl: "\<not> js_gt x x"
  by (cases x) simp_all

text \<open>
  Claim C2. On a card whose product has a \<^verbatim>\<open>prices\<close> object with price members of the
  documented type (a string, or absent), \<^verbatim>\<open>canShowListingPrice\<close> returns a value, and this
  value is truthy if and only if the negotiated price and the listing price are both
  present (strings that are not empty) and \<^verbatim>\<open>Number(listingPrice) > Number(negotiatedPrice)\<close>.
  Two prices with equal numbers give a value that is not truthy. The statement holds
  for every conversion \<open>N\<close> to numbers.
\<close>

theorem canShowListingPrice_iff:
  assumes "product_prices d = Some p"
    and "string_or_absent (prices_negotiatedPrice p)"
    and "string_or_absent (prices_listingPrice p)"
  shows "\<exists>v. canShowListingPrice N d = Inr v \<and>
           (truthy v \<longleftrightarrow>
              present (prices_negotiatedPrice p) \<and> present (prices_listingPrice p) \<and>
              js_gt (N (prices_listingPrice p)) (N (prices_negotiatedPrice p))) \<and>
           (N (prices_listingPrice p) = N (prices_negotiatedPrice p) \<longrightarrow> \<not> truthy v)"
  using assms
  by (simp add: canShowListingPrice_def js_and_truthy present_truthy js_gt_irrefl)

text \<open>The example product: listing price 120, negotiated price 95.\<close>

theorem canShowListingPrice_iff_witness:
  "canShowListingPrice Number_nat example_product = Inr (Bool True) \<and>
   present (Str ''95'') \<and> present (Str ''120'') \<and>
   js_gt (Number_nat (Str ''120'')) (Number_nat (Str ''95''))"
  using canShowListingPrice_iff [of example_product
      "\<lparr>prices_listingPrice = Str ''120'', prices_negotiatedPrice = Str ''95'',
         prices_currencyIsoCode = Str ''USD''\<rparr>" Number_nat]
  by (simp add: example_product_def canShowListingPrice_def js_and_def digit_val_def
      decimal_digits_def)

subsection \<open>The accessors on a product without prices\<close>

lemma price_accessors_total_with_prices:
  assumes "product_prices d = Some p"
  shows "price d = Inr (js_or (prices_negotiatedPrice p) (prices_listingPrice p))"
    and "hasPrice d = Inr (truthy (prices_negotiatedPrice p) \<or> truthy (prices_listingPrice p))"
    and "listingPrice d = Inr (prices_listingPrice p)"
    and "currency d = Inr (prices_currencyIsoCode p)"
  using assms
  by (simp_all add: price_def hasPrice_def listingPrice_def currency_def js_or_truthy)

lemma price_accessors_throw_without_prices:
  assumes "product_prices d = None"
  shows "price d = Inl TypeError" and "hasPrice d = Inl TypeError"
    and "listingPrice d = Inl TypeError" and "canShowListingPrice N d = Inl TypeError"
    and "currency d = Inl TypeError"
  using assms
  by (simp_all add: price_def hasPrice_def listingPrice_def canShowListingPrice_def currency_def)

text \<open>
  Claim C4. The claim says that every card accessor yields a value for every product,
  one without a \<^verbatim>\<open>prices\<close> entry included. On such a product \<^verbatim>\<open>image\<close> and \<^verbatim>\<open>fields\<close>
  yield their defaults, while \<^verbatim>\<open>price\<close>, \<^verbatim>\<open>hasPrice\<close>, \<^verbatim>\<open>listingPrice\<close>,
  \<^verbatim>\<open>canShowListingPrice\<close> and \<^verbatim>\<open>currency\<close> throw a TypeError.
\<close>

theorem card_accessors_without_prices:
  "price product_without_prices = Inl TypeError \<and>
   hasPrice product_without_prices = Inl TypeError \<and>
   listingPrice product_without_prices = Inl TypeError \<and>
   canShowListingPrice Number_nat product_without_prices = Inl TypeError \<and>
   currency product_without_prices = Inl TypeError \<and>
   image product_without_prices = empty_object \<and>
   length (fields product_without_prices) = 1"
  by (simp add: product_without_prices_def price_def hasPrice_def listingPrice_def
      canShowListingPrice_def currency_def image_def fields_def)

subsection \<open>The formatted fields\<close>

lemma fields_length:
  "length (fields d) = length (case product_fields d of None \<Rightarrow> [] | Some fs \<Rightarrow> fs)"
  by (simp add: fields_def)

lemma fields_nth:
  assumes "product_fields d = Some fs" and "i < length fs"
  shows "fields d ! i = format_field (i, fs ! i)"
  using assms by (simp add: fields_def nth_enumerate_eq)

lemma fields_absent: "product_fields d = None \<Longrightarrow> fields d = []"
  by (simp add: fields_def)

lemma fields_tabIndex:
  assumes "product_fields d = Some fs" and "i < length fs"
  shows "field_tabIndex (fields d ! i) = (if i = 0 then 0 else - 1)"
    and "field_id (fields d ! i) = i + 1"
  using assms by (simp_all add: fields_nth format_field_def)

text \<open>
  Claim C5. For every product with a field list and every position in the list, the
  getter \<^verbatim>\<open>fields\<close> yields one entry per pair, and the displayed value of a pair is its
  \<^verbatim>\<open>value\<close> when its \<^verbatim>\<open>name\<close> is \<^verbatim>\<open>Name\<close> or \<^verbatim>\<open>Description\<close>, and the string
  \<^verbatim>\<open>name: value\<close> for every other name.
\<close>

theorem fields_formatted_value:
  assumes "product_fields d = Some fs" and "i < length fs"
  shows "length (fields d) = length fs \<and>
         field_value (fields d ! i) =
           (if nv_name (fs ! i) = ''Name'' \<or> nv_name (fs ! i) = ''Description''
            then nv_value (fs ! i)
            else nv_name (fs ! i) @ '': '' @ nv_value (fs ! i))"
  using assms by (simp add: fields_length fields_nth format_field_def)

theorem fields_formatted_value_witness:
  "field_value (fields example_product ! 0) = ''Widget'' \<and>
   field_value (fields example_product ! 1) = ''Family: Tools'' \<and>
   length (fields example_product) = 2"
  using fields_formatted_value [of example_product
      "[\<lparr>nv_name = ''Name'', nv_value = ''Widget''\<rparr>,
        \<lparr>nv_name = ''Family'', nv_value = ''Tools''\<rparr>]" 0]
    fields_formatted_value [of example_product
      "[\<lparr>nv_name = ''Name'', nv_value = ''Widget''\<rparr>,
        \<lparr>nv_name = ''Family'', nv_value = ''Tools''\<rparr>]" 1]
  by (simp add: example_product_def)

section \<open>Properties of the search results component\<close>

subsection \<open>The resolved account\<close>

text \<open>
  Claim C8. \<^verbatim>\<open>resolvedEffectiveAccountId\<close> is \<^verbatim>\<open>null\<close> when the effective account id is
  absent, empty or the placeholder of fifteen zeros, and is the id, unchanged, in every
  other case.
\<close>

theorem resolvedEffectiveAccountId_cases:
  "resolvedEffectiveAccountId s =
     (case u_effectiveAccountId s of
        None \<Rightarrow> None
      | Some a \<Rightarrow> if a = [] \<or> a = ''000000000000000'' then None else Some a)"
  by (simp add: resolvedEffectiveAccountId_def Let_def split: option.split)

theorem resolvedEffectiveAccountId_witness:
  "resolvedEffectiveAccountId (initial\<lparr>u_effectiveAccountId := Some ''001xyz''\<rparr>) = Some ''001xyz''
   \<and> resolvedEffectiveAccountId (initial\<lparr>u_effectiveAccountId := Some ''''\<rparr>) = None
   \<and> resolvedEffectiveAccountId (initial\<lparr>u_effectiveAccountId := Some ''000000000000000''\<rparr>) = None
   \<and> resolvedEffectiveAccountId initial = None"
  using resolvedEffectiveAccountId_cases [of "initial\<lparr>u_effectiveAccountId := Some ''001xyz''\<rparr>"]
    resolvedEffectiveAccountId_cases [of "initial\<lparr>u_effectiveAccountId := Some ''''\<rparr>"]
    resolvedEffectiveAccountId_cases [of "initial\<lparr>u_effectiveAccountId := Some ''000000000000000''\<rparr>"]
    resolvedEffectiveAccountId_cases [of initial]
  by (simp add: initial_def)

subsection \<open>The header text\<close>

text \<open>\<open>show_nat\<close> writes a number in decimal: reading its digits gives the number back.\<close>

lemma digit_val_digit_char: "d < 10 \<Longrightarrow> digit_val (digit_char d) = Some d"
proof -
  assume "d < 10"
  then consider "d = 0" | "d = 1" | "d = 2" | "d = 3" | "d = 4" | "d = 5" | "d = 6"
    | "d = 7" | "d = 8" | "d = 9" by atomize_elim arith
  then show ?thesis by cases (simp_all add: digit_char_def digit_val_def decimal_digits_def)
qed

lemma digits_val_snoc:
  "digits_val acc (xs @ [c]) =
     (case digits_val acc xs of
        None \<Rightarrow> None
      | Some v \<Rightarrow> (case digit_val c of None \<Rightarrow> None | Some d \<Rightarrow> Some (10 * v + d)))"
  by (induction xs arbitrary: acc) (auto split: option.splits)

lemma show_nat_decimal: "digits_val 0 (show_nat n) = Some n"
proof (induction n rule: show_nat.induct)
  case (1 n)
  show ?case
  proof (cases "n < 10")
    case True
    then show ?thesis
      by (subst show_nat.simps)
         (simp add: digit_val_digit_char del: show_nat.simps)
  next
    case False
    from False have "\<not> n < 10" .
    then have ih: "digits_val 0 (show_nat (n div 10)) = Some (n div 10)"
      by (rule 1)
    have "n mod 10 < 10" by simp
    then have dv: "digit_val (digit_char (n mod 10)) = Some (n mod 10)"
      by (rule digit_val_digit_char)
    from False show ?thesis
      by (subst show_nat.simps)
         (simp add: digits_val_snoc ih dv del: show_nat.simps)
  qed
qed

lemma headerText_before_first_result: "u_displayData s = None \<Longrightarrow> headerText s = []"
  by (simp add: headerText_def)

text \<open>
  Claim C3, as amended. With a displayed page of \<open>total\<close> items, \<^verbatim>\<open>headerText\<close> is the
  string \<^verbatim>\<open>"{start} - {end} of {total} Items"\<close>, with a space on each side of the hyphen,
  when \<open>total > 1\<close>, where \<open>start = (page - 1) * pageSize + 1\<close> and
  \<open>end = min (start + pageSize - 1) total\<close>; it is \<^verbatim>\<open>"1 Result"\<close> when \<open>total = 1\<close> and
  the empty string when \<open>total = 0\<close>.
\<close>

theorem headerText_format:
  assumes "u_displayData s = Some d"
  shows "(total d > 1 \<longrightarrow>
            headerText s =
              show_int ((u_pageNumber s - 1) * pageSize d + 1) @ '' - '' @
              show_int (min ((u_pageNumber s - 1) * pageSize d + 1 + pageSize d - 1) (total d)) @
              '' of '' @ show_int (total d) @ '' Items'') \<and>
         (total d = 1 \<longrightarrow> headerText s = ''1 Result'') \<and>
         (total d = 0 \<longrightarrow> headerText s = [])"
  using assms by (simp add: headerText_def Let_def)

text \<open>
  The claim as it is worded gives the format \<^verbatim>\<open>"{start}-{end} of {total} Items"\<close>, with no
  spaces: on page 2 of 45 items, 25 to a page, that is \<^verbatim>\<open>"26-45 of 45 Items"\<close>, and the
  getter returns \<^verbatim>\<open>"26 - 45 of 45 Items"\<close>.
\<close>

theorem headerText_counterexample:
  "headerText page_two_of_45 = ''26 - 45 of 45 Items'' \<and>
   headerText_spec 45 25 2 = ''26-45 of 45 Items'' \<and>
   headerText page_two_of_45 \<noteq> headerText_spec 45 25 2"
  by (simp add: page_two_of_45_def headerText_def headerText_spec_def Let_def
      show_int_def digit_char_def decimal_digits_def)

theorem headerText_format_witness:
  "headerText page_two_of_45 = ''26 - 45 of 45 Items'' \<and>
   headerText (initial\<lparr>u_displayData := Some \<lparr>total = 1, pageSize = 25, cards = []\<rparr>\<rparr>)
     = ''1 Result'' \<and>
   headerText (initial\<lparr>u_displayData := Some \<lparr>total = 0, pageSize = 25, cards = []\<rparr>\<rparr>) = []"
  using headerText_format [of page_two_of_45 "\<lparr>total = 45, pageSize = 25, cards = []\<rparr>"]
    headerText_format [of "initial\<lparr>u_displayData := Some \<lparr>total = 1, pageSize = 25, cards = []\<rparr>\<rparr>"
       "\<lparr>total = 1, pageSize = 25, cards = []\<rparr>"]
    headerText_format [of "initial\<lparr>u_displayData := Some \<lparr>total = 0, pageSize = 25, cards = []\<rparr>\<rparr>"
       "\<lparr>total = 0, pageSize = 25, cards = []\<rparr>"]
  by (simp add: page_two_of_45_def show_int_def digit_char_def decimal_digits_def)

subsection \<open>Closing the comparison modal\<close>

text \<open>
  Claim C7. After \<^verbatim>\<open>closeComparingModal\<close> the modal flag is false and \<^verbatim>\<open>idsToCompare\<close> is the
  empty string, and both stay so when the \<^verbatim>\<open>cleanCache\<close> call settles later, whether it
  is fulfilled or rejected (\<open>outcome\<close> is \<open>None\<close> or the reason of the rejection).
\<close>

theorem closeComparingModal_clears:
  "\<not> isComparingModalOpen (closeComparingModal s) \<and>
   idsToCompare (closeComparingModal s) = Some [] \<and>
   (\<exists>s'. cleanCacheSettled outcome (closeComparingModal s) = Some s' \<and>
         \<not> isComparingModalOpen s' \<and> idsToCompare s' = Some [])"
  by (simp add: closeComparingModal_def cleanCacheSettled_def)

theorem closeComparingModal_clears_witness:
  "\<not> isComparingModalOpen
       (closeComparingModal (initial\<lparr>isComparingModalOpen := True, idsToCompare := Some ''01t1,01t2''\<rparr>)) \<and>
   idsToCompare
       (closeComparingModal (initial\<lparr>isComparingModalOpen := True, idsToCompare := Some ''01t1,01t2''\<rparr>))
     = Some [] \<and>
   map_option isComparingModalOpen
       (cleanCacheSettled (Some ''cache error'')
          (closeComparingModal (initial\<lparr>isComparingModalOpen := True, idsToCompare := Some ''01t1,01t2''\<rparr>)))
     = Some False"
  using closeComparingModal_clears
    [of "initial\<lparr>isComparingModalOpen := True, idsToCompare := Some ''01t1,01t2''\<rparr>"
        "Some ''cache error''"]
  by auto

subsection \<open>Searches issued by the setters and handlers\<close>

lemma issued_triggerProductSearch:
  "issued (triggerProductSearch s) =
     issued s @ [\<lparr>searchQuery = \<lparr>searchTerm = u_term s, categoryId = u_recordId s,
                    refinements = u_refinements s, page = u_pageNumber s - 1,
                    includePrices = True, includeQuantityRule = True\<rparr>,
                  effectiveAccountId = resolvedEffectiveAccountId s\<rparr>]"
  by (simp add: triggerProductSearch_def productSearch_def Let_def resolvedEffectiveAccountId_def)

lemma triggerProductSearch_frame:
  "u_pageNumber (triggerProductSearch s) = u_pageNumber s"
  "u_displayData (triggerProductSearch s) = u_displayData s"
  "u_isLoading (triggerProductSearch s) = True"
  "settled (triggerProductSearch s) = settled s"
  "u_term (triggerProductSearch s) = u_term s"
  "u_cardContentMapping (triggerProductSearch s) = u_cardContentMapping s"
  by (simp_all add: triggerProductSearch_def productSearch_def Let_def)

lemma truthy_opt_val: "truthy (opt_val t) \<longleftrightarrow> t \<noteq> None \<and> t \<noteq> Some []"
  by (cases t) (simp_all add: opt_val_def)

text \<open>
  Claim C9, as amended. An assignment through the \<^verbatim>\<open>recordId\<close> setter, a category
  update, a refinement update and a page change each issue exactly one new search. An
  assignment through the \<^verbatim>\<open>term\<close> setter issues exactly one new search when the term
  assigned is a string that is not empty, and none when it is absent or empty.
\<close>

theorem query_setters_issue_one_search:
  "(\<exists>q. issued (set_recordId v s) = issued s @ [q]) \<and>
   (\<exists>q. issued (handleCategoryUpdate v s) = issued s @ [q]) \<and>
   (\<exists>q. issued (handleFacetValueUpdate rs s) = issued s @ [q]) \<and>
   (\<exists>q. issued (handlePreviousPage s) = issued s @ [q]) \<and>
   (\<exists>q. issued (handleNextPage s) = issued s @ [q]) \<and>
   (t \<noteq> None \<and> t \<noteq> Some [] \<longrightarrow> (\<exists>q. issued (set_term t s) = issued s @ [q])) \<and>
   (t = None \<or> t = Some [] \<longrightarrow> issued (set_term t s) = issued s)"
  by (auto simp add: set_recordId_def handleCategoryUpdate_def handleFacetValueUpdate_def
      handlePreviousPage_def handleNextPage_def set_term_def truthy_opt_val
      issued_triggerProductSearch Let_def)

text \<open>
  The claim as it is worded fails on the \<^verbatim>\<open>term\<close> setter: assigning the empty string
  to a component whose term is \<^verbatim>\<open>shoes\<close> changes the term and issues no search.
\<close>

theorem set_term_empty_issues_no_search:
  "u_term (initial\<lparr>u_term := Some ''shoes''\<rparr>) = Some ''shoes'' \<and>
   u_term (set_term (Some '''') (initial\<lparr>u_term := Some ''shoes''\<rparr>)) = Some '''' \<and>
   issued (set_term (Some '''') (initial\<lparr>u_term := Some ''shoes''\<rparr>)) =
     issued (initial\<lparr>u_term := Some ''shoes''\<rparr>)"
  by (simp add: set_term_def opt_val_def initial_def)

theorem query_setters_issue_one_search_witness:
  "length (issued (set_recordId (Some ''0ZG000000000001'') initial)) = 1 \<and>
   length (issued (handleNextPage initial)) = 1 \<and>
   length (issued (set_term (Some ''shoes'') initial)) = 1 \<and>
   length (issued (set_term None initial)) = 0"
  using query_setters_issue_one_search [of "Some ''0ZG000000000001''" initial "[]" "Some ''shoes''"]
    query_setters_issue_one_search [of None initial "[]" None]
  by (auto simp add: initial_def)

lemma set_recordId_keeps_page:
  "u_pageNumber (set_recordId v s) = u_pageNumber s"
  by (simp add: set_recordId_def triggerProductSearch_frame)




subsection \<open>Responses that arrive in any order\<close>

lemmas run_defs = initial_def handleNextPage_def triggerProductSearch_def productSearch_def
  searchResolved_def searchRejected_def in_flight_def Let_def resolvedEffectiveAccountId_def
  latest_def example_transform_def latest_in_flight_def

lemma step_displayData:
  "step td s e = Some s' \<Longrightarrow>
     u_displayData s' =
       (case e of SearchResolved n r \<Rightarrow> Some (td r (u_cardContentMapping s))
        | _ \<Rightarrow> u_displayData s)"
  by (cases e)
     (auto simp add: set_recordId_def set_term_def handlePreviousPage_def handleNextPage_def
        handleFacetValueUpdate_def handleCategoryUpdate_def triggerProductSearch_frame
        searchResolved_def searchRejected_def closeComparingModal_def cleanCacheSettled_def
        set_cardContentMapping_def Let_def split: if_splits)

lemma step_cardContentMapping:
  "step td s e = Some s' \<Longrightarrow> u_cardContentMapping s' = mapping_after (u_cardContentMapping s) e"
  by (cases e)
     (auto simp add: set_recordId_def set_term_def handlePreviousPage_def handleNextPage_def
        handleFacetValueUpdate_def handleCategoryUpdate_def triggerProductSearch_frame
        searchResolved_def searchRejected_def closeComparingModal_def cleanCacheSettled_def
        set_cardContentMapping_def Let_def split: if_splits)

lemma run_displayData:
  "run td s es = Some s' \<Longrightarrow>
     u_displayData s' =
       (case last_resolved (u_cardContentMapping s) es of
          None \<Rightarrow> u_displayData s
        | Some (r, m) \<Rightarrow> Some (td r m))"
proof (induction es arbitrary: s)
  case Nil
  then show ?case by simp
next
  case (Cons e es)
  from Cons.prems obtain s1 where s1: "step td s e = Some s1" and rest: "run td s1 es = Some s'"
    by (auto split: option.splits)
  from Cons.IH [OF rest] step_displayData [OF s1] step_cardContentMapping [OF s1] show ?case
    by (cases "last_resolved (mapping_after (u_cardContentMapping s) e) es"; cases e) simp_all
qed

lemma resolve_in_flight:
  "in_flight s n \<Longrightarrow>
     \<exists>s'. step td s (SearchResolved n r) = Some s' \<and>
          u_displayData s' = Some (td r (u_cardContentMapping s))"
  by (simp add: searchResolved_def)

text \<open>
  Claim C1, as amended. The component numbers no search and discards no response. The
  response of every search in flight, the most recent one or an older one, is applied
  to the displayed page when it arrives; so after any sequence of events the displayed
  page is the one built from the response that arrived last, and it is the page from
  before the sequence when no response arrived.
\<close>

theorem response_applied_on_arrival:
  "(in_flight s n \<longrightarrow>
      (\<exists>s1. step td s (SearchResolved n r) = Some s1 \<and>
            u_displayData s1 = Some (td r (u_cardContentMapping s)))) \<and>
   (run td s es = Some s' \<longrightarrow>
      u_displayData s' =
        (case last_resolved (u_cardContentMapping s) es of
           None \<Rightarrow> u_displayData s
         | Some (r, m) \<Rightarrow> Some (td r m)))"
proof (intro conjI impI)
  assume "in_flight s n"
  then show "\<exists>s1. step td s (SearchResolved n r) = Some s1 \<and>
      u_displayData s1 = Some (td r (u_cardContentMapping s))"
    by (rule resolve_in_flight)
next
  assume "run td s es = Some s'"
  then show "u_displayData s' =
      (case last_resolved (u_cardContentMapping s) es of
         None \<Rightarrow> u_displayData s
       | Some (r, m) \<Rightarrow> Some (td r m))"
    by (rule run_displayData)
qed

text \<open>
  The claim as it is worded fails: two page changes issue the searches 0 and 1; the
  response of search 1 arrives first and is displayed; the response of search 0, which
  is not the most recent search, arrives next and replaces it.
\<close>

theorem stale_response_overwrites_newer:
  "map_option u_displayData
     (run example_transform initial [NextPage, NextPage, SearchResolved 1 300])
     = Some (Some (example_transform 300 None)) \<and>
   map_option u_displayData
     (run example_transform initial [NextPage, NextPage, SearchResolved 1 300, SearchResolved 0 200])
     = Some (Some (example_transform 200 None)) \<and>
   map_option latest
     (run example_transform initial [NextPage, NextPage, SearchResolved 1 300, SearchResolved 0 200])
     = Some 1 \<and>
   example_transform 200 None \<noteq> example_transform 300 None"
  by (simp add: run_defs)

theorem response_applied_on_arrival_witness:
  "map_option u_displayData
     (run example_transform initial [NextPage, SearchResolved 0 200, NextPage, SearchRejected 1 ''timeout''])
     = Some (Some (example_transform 200 None)) \<and>
   in_flight (handleNextPage initial) 0 \<and>
   map_option u_displayData (step example_transform (handleNextPage initial) (SearchResolved 0 200))
     = Some (Some (example_transform 200 None))"
proof -
  let ?es = "[NextPage, SearchResolved 0 200, NextPage, SearchRejected 1 ''timeout'']"
  obtain s' where r: "run example_transform initial ?es = Some s'"
    by (simp add: run_defs)
  have f: "in_flight (handleNextPage initial) 0"
    by (simp add: run_defs)
  have 1: "u_displayData s' = Some (example_transform 200 None)"
    using response_applied_on_arrival [where s = initial and td = example_transform
        and es = ?es and s' = s' and n = 0 and r = 200] r
    by (simp add: initial_def)
  have 2: "\<exists>s1. step example_transform (handleNextPage initial) (SearchResolved 0 200) = Some s1 \<and>
             u_displayData s1 = Some (example_transform 200 (u_cardContentMapping (handleNextPage initial)))"
    using response_applied_on_arrival [where s = "handleNextPage initial" and n = 0
        and td = example_transform and r = 200 and es = "[]" and s' = "handleNextPage initial"] f
    by blast
  from 1 2 r f show ?thesis
    by (auto simp add: example_transform_def)
qed

subsection \<open>The loading flag\<close>










end
